theory Spec2Isabelle
  imports Main "HOL-Library.AList"
begin

section \<open>KML File Viewer: the state transitions of \<open>src/App.js\<close>\<close>

text \<open>
  The component \<open>App\<close> holds three pieces of state (\<open>geoJsonData\<close>, \<open>summary\<close>,
  \<open>details\<close>) and a reference to the map instance. Its handlers are modelled as functions
  from the state before the event to the state after it. The libraries the handlers call
  (\<open>DOMParser\<close>, \<open>toGeoJSON.kml\<close>, \<open>turf.length\<close>, \<open>turf.bbox\<close>) are not part of
  \<open>src/\<close>; the handlers take them as parameters, and the two \<open>turf\<close> functions are
  modelled separately for the properties that depend on what they compute.
\<close>

subsection \<open>GeoJSON data\<close>

text \<open>
  A position is the array \<open>[longitude, latitude]\<close>; an altitude, when the array has one,
  is read by nothing in this program. The type \<open>'a\<close> is the type of coordinate numbers.
\<close>

type_synonym 'a position = "'a \<times> 'a"

text \<open>
  A GeoJSON geometry object: the constructor is the object's \<open>type\<close> field, the argument
  its \<open>coordinates\<close> (or \<open>geometries\<close>) field.
\<close>

datatype 'a geometry =
    Point "'a position"
  | LineString "'a position list"
  | Polygon "'a position list list"
  | MultiPoint "'a position list"
  | MultiLineString "'a position list list"
  | MultiPolygon "'a position list list list"
  | GeometryCollection "'a geometry list"

text \<open>The string that \<open>feature.geometry.type\<close> reads.\<close>

fun geometry_type :: "'a geometry \<Rightarrow> string" where
  "geometry_type (Point _) = ''Point''"
| "geometry_type (LineString _) = ''LineString''"
| "geometry_type (Polygon _) = ''Polygon''"
| "geometry_type (MultiPoint _) = ''MultiPoint''"
| "geometry_type (MultiLineString _) = ''MultiLineString''"
| "geometry_type (MultiPolygon _) = ''MultiPolygon''"
| "geometry_type (GeometryCollection _) = ''GeometryCollection''"

record 'a feature =
  geometry :: "'a geometry"

record 'a feature_collection =
  features :: "'a feature list"

subsection \<open>JavaScript objects used as dictionaries\<close>

text \<open>
  \<open>counts\<close> and \<open>detailsData\<close> start as \<open>{}\<close> and are written with \<open>obj[key] = v\<close>.
  \<open>Object.entries\<close> lists string keys in insertion order, and writing an existing key
  keeps its place: an association list read with \<^const>\<open>map_of\<close> and written with
  \<^const>\<open>AList.update\<close>. A missing key reads as \<open>undefined\<close>, here \<^const>\<open>None\<close>.
\<close>

type_synonym 'v js_object = "(string \<times> 'v) list"

subsection \<open>Application state\<close>

text \<open>
  The three \<open>useState\<close> cells; \<open>null\<close> is \<^const>\<open>None\<close>. The type \<open>'n\<close> is the type
  of the numbers \<open>turf.length\<close> returns.
\<close>

record ('a, 'n) app_state =
  geoJsonData :: "'a feature_collection option"
  summary :: "nat js_object option"
  details :: "'n js_object option"

subsection \<open>\<open>handleSummary\<close>\<close>

text \<open>
  \<open>(counts[geomType] || 0)\<close>: \<open>undefined\<close> and \<open>0\<close> are falsy and give \<open>0\<close>, any
  other count gives itself. Counts are natural numbers.
\<close>

definition count_or_zero :: "nat option \<Rightarrow> nat" where
  "count_or_zero v = (case v of None \<Rightarrow> 0 | Some n \<Rightarrow> if n = 0 then 0 else n)"

text \<open>The body of the \<open>forEach\<close> callback of \<open>handleSummary\<close>.\<close>

definition count_feature :: "nat js_object \<Rightarrow> 'a feature \<Rightarrow> nat js_object" where
  "count_feature counts feature =
     (let geomType = geometry_type (geometry feature)
      in AList.update geomType (count_or_zero (map_of counts geomType) + 1) counts)"

definition handleSummary :: "('a, 'n) app_state \<Rightarrow> ('a, 'n) app_state" where
  "handleSummary s =
     (case geoJsonData s of
        None \<Rightarrow> s
      | Some g \<Rightarrow> s\<lparr>summary := Some (foldl count_feature [] (features g))\<rparr>)"

text \<open>The number of features of a collection whose geometry type is \<open>k\<close>.\<close>

definition type_count :: "string \<Rightarrow> 'a feature list \<Rightarrow> nat" where
  "type_count k fs = length (filter (\<lambda>f. geometry_type (geometry f) = k) fs)"

subsection \<open>\<open>handleDetailed\<close>\<close>

text \<open>
  The lengths are JavaScript numbers (IEEE doubles). Their arithmetic is a parameter:
  the number \<open>0\<close>, the addition \<open>+\<close> and the truthiness test that \<open>||\<close> applies
  (\<open>0\<close>, \<open>-0\<close> and \<open>NaN\<close> are falsy).
\<close>

record 'n js_arith =
  num_zero :: 'n
  num_add :: "'n \<Rightarrow> 'n \<Rightarrow> 'n"
  num_truthy :: "'n \<Rightarrow> bool"

text \<open>\<open>(detailsData[geomType] || 0)\<close>.\<close>

definition length_or_zero :: "'n js_arith \<Rightarrow> 'n option \<Rightarrow> 'n" where
  "length_or_zero ar v =
     (case v of None \<Rightarrow> num_zero ar
      | Some x \<Rightarrow> if num_truthy ar x then x else num_zero ar)"

text \<open>
  The body of the \<open>forEach\<close> callback of \<open>handleDetailed\<close>; \<open>turf_length\<close> stands for
  \<open>turf.length(feature, { units: 'kilometers' })\<close>.
\<close>

definition add_length ::
  "'n js_arith \<Rightarrow> ('a feature \<Rightarrow> 'n) \<Rightarrow> 'n js_object \<Rightarrow> 'a feature \<Rightarrow> 'n js_object" where
  "add_length ar turf_length detailsData feature =
     (let geomType = geometry_type (geometry feature)
      in if geomType = ''LineString'' \<or> geomType = ''MultiLineString''
         then (let length = turf_length feature
               in AList.update geomType
                    (num_add ar (length_or_zero ar (map_of detailsData geomType)) length)
                    detailsData)
         else detailsData)"

definition handleDetailed ::
  "'n js_arith \<Rightarrow> ('a feature \<Rightarrow> 'n) \<Rightarrow> ('a, 'n) app_state \<Rightarrow> ('a, 'n) app_state" where
  "handleDetailed ar turf_length s =
     (case geoJsonData s of
        None \<Rightarrow> s
      | Some g \<Rightarrow> s\<lparr>details := Some (foldl (add_length ar turf_length) [] (features g))\<rparr>)"

text \<open>The test of \<open>handleDetailed\<close> on a feature's geometry type.\<close>

definition is_line :: "'a feature \<Rightarrow> bool" where
  "is_line f \<longleftrightarrow>
     geometry_type (geometry f) = ''LineString'' \<or>
     geometry_type (geometry f) = ''MultiLineString''"

subsection \<open>\<open>handleFileUpload\<close> and the reader's \<open>onload\<close>\<close>

text \<open>
  \<open>DOMParser.parseFromString(text, 'text/xml')\<close> does not throw on text that is not
  well-formed XML: it returns a document in both cases, and on failure the document holds
  a \<open>parsererror\<close> element instead of the tree.
\<close>

datatype 'tree xml_document = XmlTree 'tree | ParserErrorDocument

text \<open>
  The \<open>onload\<close> callback: parse, convert, then the three state setters in the order of the
  source. The parser and \<open>toGeoJSON.kml\<close> are parameters.
\<close>

definition onload ::
  "(string \<Rightarrow> 'd) \<Rightarrow> ('d \<Rightarrow> 'a feature_collection) \<Rightarrow> string
     \<Rightarrow> ('a, 'n) app_state \<Rightarrow> ('a, 'n) app_state" where
  "onload parseFromString kml text s =
     (let kmlDoc = parseFromString text;
          geoJson = kml kmlDoc;
          s1 = s\<lparr>geoJsonData := Some geoJson\<rparr>;
          s2 = s1\<lparr>summary := None\<rparr>;
          s3 = s2\<lparr>details := None\<rparr>
      in s3)"

text \<open>
  What the handler asks of the browser: \<open>reader.readAsText(file)\<close>, whose completion
  runs \<open>onload\<close> later.
\<close>

datatype 'file request = ReadAsText 'file

text \<open>
  \<open>e.target.files[0]\<close> is a file or \<open>undefined\<close> (\<^const>\<open>None\<close>). The handler itself
  writes no state; it returns the state and the reads it started.
\<close>

definition handleFileUpload ::
  "'file option \<Rightarrow> ('a, 'n) app_state \<Rightarrow> ('a, 'n) app_state \<times> 'file request list" where
  "handleFileUpload file s =
     (case file of
        None \<Rightarrow> (s, [])
      | Some f \<Rightarrow> (s, [ReadAsText f]))"

subsection \<open>The effect that fits the map to the data\<close>

text \<open>
  The call \<open>mapRef.current.fitBounds([southWest, northEast], { padding: [20, 20] })\<close>.
\<close>

record 'b fit_bounds_call =
  southWest :: "'b \<times> 'b"
  northEast :: "'b \<times> 'b"
  padding :: "nat \<times> nat"

text \<open>
  The effect runs when \<open>geoJsonData\<close> changes. \<open>bbox\<close> stands for \<open>turf.bbox\<close>, whose
  result is an array of four numbers; \<open>mapRef\<close> is \<open>mapRef.current\<close>, \<open>undefined\<close>
  (\<^const>\<open>None\<close>) until the map is created. The result is the \<open>fitBounds\<close> call the effect
  makes, if it makes one.
\<close>

definition fitBounds_effect ::
  "('a feature_collection \<Rightarrow> 'b \<times> 'b \<times> 'b \<times> 'b) \<Rightarrow> 'a feature_collection option
     \<Rightarrow> 'm option \<Rightarrow> 'b fit_bounds_call option" where
  "fitBounds_effect bbox data mapRef =
     (case data of
        None \<Rightarrow> None
      | Some g \<Rightarrow>
          (case mapRef of
             None \<Rightarrow> None
           | Some _ \<Rightarrow>
               (case bbox g of (b0, b1, b2, b3) \<Rightarrow>
                  Some \<lparr>southWest = (b1, b0), northEast = (b3, b2), padding = (20, 20)\<rparr>)))"

subsection \<open>The library functions \<open>turf.bbox\<close> and \<open>turf.length\<close>\<close>

text \<open>
  A coordinate number or one of the two infinities, with the order \<open>result[i] > coord[j]\<close>
  compares in. \<open>NaN\<close> is not modelled: coordinates are numbers.
\<close>

datatype 'a js_number = NegInfinity | Finite 'a | PosInfinity

fun js_less :: "'a::linorder js_number \<Rightarrow> 'a js_number \<Rightarrow> bool" where
  "js_less NegInfinity NegInfinity = False"
| "js_less NegInfinity _ = True"
| "js_less (Finite x) (Finite y) = (x < y)"
| "js_less (Finite _) PosInfinity = True"
| "js_less (Finite _) NegInfinity = False"
| "js_less PosInfinity _ = False"

text \<open>Every position of a geometry, in the order of the document.\<close>

fun coordEach :: "'a geometry \<Rightarrow> 'a position list" where
  "coordEach (Point p) = [p]"
| "coordEach (LineString ps) = ps"
| "coordEach (Polygon rings) = concat rings"
| "coordEach (MultiPoint ps) = ps"
| "coordEach (MultiLineString ls) = concat ls"
| "coordEach (MultiPolygon polys) = concat (concat polys)"
| "coordEach (GeometryCollection gs) = concat (map coordEach gs)"

definition coordinates :: "'a feature_collection \<Rightarrow> 'a position list" where
  "coordinates c = concat (map (\<lambda>f. coordEach (geometry f)) (features c))"

text \<open>
  Modelled from the spec: \<open>turf.bbox\<close> belongs to the library \<open>@turf/turf\<close>, which is not
  under \<open>src/\<close>. The spec has it compute "the minimum bounding rectangle enclosing every
  coordinate across every feature"; the source reads the result as the array
  \<open>[minX, minY, maxX, maxY]\<close> with \<open>X\<close> the longitude. The rectangle starts as
  \<open>[Infinity, Infinity, -Infinity, -Infinity]\<close> and is widened by each position.
\<close>

fun bbox_step ::
  "'a::linorder js_number \<times> 'a js_number \<times> 'a js_number \<times> 'a js_number \<Rightarrow> 'a position
     \<Rightarrow> 'a js_number \<times> 'a js_number \<times> 'a js_number \<times> 'a js_number" where
  "bbox_step (r0, r1, r2, r3) (x, y) =
     (if js_less (Finite x) r0 then Finite x else r0,
      if js_less (Finite y) r1 then Finite y else r1,
      if js_less r2 (Finite x) then Finite x else r2,
      if js_less r3 (Finite y) then Finite y else r3)"

definition turf_bbox ::
  "'a::linorder feature_collection
     \<Rightarrow> 'a js_number \<times> 'a js_number \<times> 'a js_number \<times> 'a js_number" where
  "turf_bbox c =
     foldl bbox_step (PosInfinity, PosInfinity, NegInfinity, NegInfinity) (coordinates c)"

text \<open>
  Modelled from the spec: \<open>turf.length\<close> belongs to the library \<open>@turf/turf\<close>, which is
  not under \<open>src/\<close>. The spec has it compute the length of a line feature by "a
  great-circle distance accumulation along consecutive coordinate pairs (and, for
  MultiLineString, across all constituent lines)". The distance of two positions is the
  parameter \<open>distance\<close>; the accumulation starts at \<open>0\<close>. \<open>handleDetailed\<close> calls it on
  line features only; other geometries have no pairs here.
\<close>

fun segments :: "'a geometry \<Rightarrow> ('a position \<times> 'a position) list" where
  "segments (LineString ps) = zip ps (tl ps)"
| "segments (MultiLineString ls) = concat (map (\<lambda>ps. zip ps (tl ps)) ls)"
| "segments _ = []"

definition turf_length ::
  "'n js_arith \<Rightarrow> ('a position \<Rightarrow> 'a position \<Rightarrow> 'n) \<Rightarrow> 'a feature \<Rightarrow> 'n" where
  "turf_length ar distance feature =
     foldl (\<lambda>previousValue (p, q). num_add ar previousValue (distance p q))
       (num_zero ar) (segments (geometry feature))"

subsection \<open>Sample data\<close>

text \<open>Integer arithmetic as an instance of the number operations.\<close>

definition int_arith :: "int js_arith" where
  "int_arith = \<lparr>num_zero = 0, num_add = (+), num_truthy = (\<lambda>x. x \<noteq> 0)\<rparr>"

text \<open>A stand-in for the distance of two positions on integer coordinates.\<close>

definition grid_distance :: "int position \<Rightarrow> int position \<Rightarrow> int" where
  "grid_distance p q = \<bar>fst p - fst q\<bar> + \<bar>snd p - snd q\<bar>"

definition sample_features :: "int feature list" where
  "sample_features =
     [\<lparr>geometry = Point (10, 50)\<rparr>,
      \<lparr>geometry = LineString [(10, 50), (13, 54)]\<rparr>,
      \<lparr>geometry = Polygon [[(0, 0), (4, 0), (4, 3), (0, 0)]]\<rparr>,
      \<lparr>geometry = LineString [(-2, 7)]\<rparr>,
      \<lparr>geometry = Point (11, 51)\<rparr>]"

definition sample_collection :: "int feature_collection" where
  "sample_collection = \<lparr>features = sample_features\<rparr>"

definition empty_collection :: "int feature_collection" where
  "empty_collection = \<lparr>features = []\<rparr>"

text \<open>The state before any file is loaded.\<close>

definition initial_state :: "(int, int) app_state" where
  "initial_state = \<lparr>geoJsonData = None, summary = None, details = None\<rparr>"

text \<open>A state with a loaded collection and both tables computed.\<close>

definition loaded_state :: "(int, int) app_state" where
  "loaded_state =
     \<lparr>geoJsonData = Some sample_collection,
      summary = Some [(''Point'', 2), (''LineString'', 2), (''Polygon'', 1)],
      details = Some [(''LineString'', 7)]\<rparr>"

text \<open>
  A parser that accepts no text, and a converter that finds no placemark in the error
  document (and none elsewhere).
\<close>

definition rejecting_parser :: "string \<Rightarrow> unit xml_document" where
  "rejecting_parser text = ParserErrorDocument"

definition no_placemarks :: "unit xml_document \<Rightarrow> int feature_collection" where
  "no_placemarks doc = empty_collection"

section \<open>Properties\<close>

subsection \<open>The summary\<close>

lemma count_or_zero_Some: "count_or_zero (Some n) = n"
  by (simp add: count_or_zero_def)

lemma count_or_zero_None: "count_or_zero None = 0"
  by (simp add: count_or_zero_def)

lemma keys_count_feature:
  "fst ` set (count_feature m f) = insert (geometry_type (geometry f)) (fst ` set m)"
  by (simp add: count_feature_def Let_def dom_update)

lemma distinct_count_feature:
  "distinct (map fst m) \<Longrightarrow> distinct (map fst (count_feature m f))"
  by (simp add: count_feature_def Let_def distinct_update)

lemma map_of_count_feature:
  "map_of (count_feature m f) k =
     (if geometry_type (geometry f) = k then Some (count_or_zero (map_of m k) + 1)
      else map_of m k)"
  by (simp add: count_feature_def Let_def update_conv')

lemma sum_update_incr:
  "sum_list (map snd (AList.update k (count_or_zero (map_of al k) + 1) al)) =
     sum_list (map snd al) + 1"
  by (induction al) (auto simp: count_or_zero_Some count_or_zero_None)

lemma sum_count_feature:
  "sum_list (map snd (count_feature m f)) = sum_list (map snd m) + 1"
  using sum_update_incr [of "geometry_type (geometry f)" m]
  by (simp add: count_feature_def Let_def)

lemma keys_counts:
  "fst ` set (foldl count_feature m fs) =
     fst ` set m \<union> (\<lambda>f. geometry_type (geometry f)) ` set fs"
  by (induction fs arbitrary: m) (auto simp: keys_count_feature)

lemma distinct_counts:
  "distinct (map fst m) \<Longrightarrow> distinct (map fst (foldl count_feature m fs))"
  by (induction fs arbitrary: m) (auto simp: distinct_count_feature)

lemma sum_counts:
  "sum_list (map snd (foldl count_feature m fs)) = sum_list (map snd m) + length fs"
  by (induction fs arbitrary: m) (auto simp: sum_count_feature)

lemma type_count_Cons:
  "type_count k (f # fs) = (if geometry_type (geometry f) = k then 1 else 0) + type_count k fs"
  by (simp add: type_count_def)

lemma type_count_pos:
  "0 < type_count k fs \<longleftrightarrow> k \<in> (\<lambda>f. geometry_type (geometry f)) ` set fs"
  by (induction fs) (auto simp: type_count_def)

lemma map_of_counts:
  "map_of (foldl count_feature m fs) k =
     (if type_count k fs = 0 then map_of m k
      else Some (count_or_zero (map_of m k) + type_count k fs))"
proof (induction fs arbitrary: m)
  case Nil
  show ?case by (simp add: type_count_def)
next
  case (Cons f fs)
  show ?case
    by (simp add: Cons.IH map_of_count_feature type_count_Cons count_or_zero_Some)
qed

lemma map_of_counts_empty:
  "map_of (foldl count_feature [] fs) k =
     (if type_count k fs = 0 then None else Some (type_count k fs))"
  by (simp add: map_of_counts count_or_zero_None)

text \<open>
  C1. When a collection \<open>c\<close> is loaded, \<open>handleSummary\<close> stores an object with exactly
  one entry for each geometry type that occurs among the features of \<open>c\<close>; the value of
  each entry is the number of features of that type; the values add up to the number of
  features; a type that does not occur has no key.
\<close>

theorem summary_counts_by_type:
  assumes "geoJsonData s = Some c"
  shows "\<exists>m. summary (handleSummary s) = Some m
           \<and> distinct (map fst m)
           \<and> fst ` set m = (\<lambda>f. geometry_type (geometry f)) ` set (features c)
           \<and> (\<forall>k n. (k, n) \<in> set m \<longrightarrow> n = type_count k (features c) \<and> 0 < n)
           \<and> (\<forall>k. type_count k (features c) = 0 \<longrightarrow> map_of m k = None)
           \<and> sum_list (map snd m) = length (features c)"
proof -
  let ?m = "foldl count_feature [] (features c)"
  have st: "summary (handleSummary s) = Some ?m"
    using assms by (simp add: handleSummary_def)
  have d: "distinct (map fst ?m)"
    by (rule distinct_counts) simp
  have k: "fst ` set ?m = (\<lambda>f. geometry_type (geometry f)) ` set (features c)"
    by (simp add: keys_counts)
  have v: "n = type_count k (features c) \<and> 0 < n" if "(k, n) \<in> set ?m" for k n
  proof -
    from that d have "map_of ?m k = Some n" by simp
    then show ?thesis
      by (simp add: map_of_counts_empty split: if_splits)
  qed
  have z: "map_of ?m k = None" if "type_count k (features c) = 0" for k
    using that by (simp add: map_of_counts_empty)
  have t: "sum_list (map snd ?m) = length (features c)"
    by (simp add: sum_counts)
  from st d k v z t show ?thesis by blast
qed

theorem summary_counts_by_type_witness:
  "geoJsonData loaded_state = Some sample_collection
   \<and> (\<exists>m. summary (handleSummary loaded_state) = Some m
           \<and> distinct (map fst m)
           \<and> fst ` set m = (\<lambda>f. geometry_type (geometry f)) ` set (features sample_collection)
           \<and> sum_list (map snd m) = length (features sample_collection))"
proof -
  have h: "geoJsonData loaded_state = Some sample_collection"
    by (simp add: loaded_state_def)
  from summary_counts_by_type [OF h] h show ?thesis by blast
qed

subsection \<open>Loading a file\<close>

text \<open>
  The claim C2 as written (text that does not parse makes the load fail and leaves the
  loaded collection as it was) does not hold: with a parser that reports a parse error and
  a converter that finds no feature in the error document, \<open>onload\<close> replaces the loaded
  collection.
\<close>

theorem malformed_text_replaces_collection:
  "rejecting_parser ''not xml'' = ParserErrorDocument
   \<and> geoJsonData (onload rejecting_parser no_placemarks ''not xml'' loaded_state)
       \<noteq> geoJsonData loaded_state"
  by (simp add: onload_def rejecting_parser_def no_placemarks_def loaded_state_def
        empty_collection_def sample_collection_def sample_features_def)

text \<open>
  C2, amended. When the text does not parse as XML, \<open>onload\<close> does not stop at the
  parse: it hands the parser's error document to the converter and stores the result as
  the current collection. The collection loaded before is replaced by that result; it
  stays only if it already equals it.
\<close>

theorem onload_on_parser_error:
  assumes "parseFromString text = ParserErrorDocument"
  shows "geoJsonData (onload parseFromString kml text s) = Some (kml ParserErrorDocument)
         \<and> (geoJsonData (onload parseFromString kml text s) = geoJsonData s
              \<longleftrightarrow> geoJsonData s = Some (kml ParserErrorDocument))"
  using assms by (auto simp: onload_def)

theorem onload_on_parser_error_witness:
  "rejecting_parser ''not xml'' = ParserErrorDocument
   \<and> geoJsonData (onload rejecting_parser no_placemarks ''not xml'' loaded_state)
       = Some empty_collection"
proof -
  have h: "rejecting_parser ''not xml'' = ParserErrorDocument"
    by (simp add: rejecting_parser_def)
  from onload_on_parser_error [of rejecting_parser "''not xml''" no_placemarks loaded_state] h
  show ?thesis by (simp add: no_placemarks_def)
qed

text \<open>
  C6. The step that stores a newly loaded collection also resets \<open>summary\<close> and
  \<open>details\<close>: after \<open>onload\<close> no table computed from an older collection is left.
\<close>

theorem onload_clears_derived:
  "geoJsonData (onload parseFromString kml text s) = Some (kml (parseFromString text))
   \<and> summary (onload parseFromString kml text s) = None
   \<and> details (onload parseFromString kml text s) = None"
  by (simp add: onload_def)

text \<open>
  C10. When the selection event carries no file, \<open>handleFileUpload\<close> starts no read and
  returns the state as it was.
\<close>

theorem upload_without_file:
  "handleFileUpload None s = (s, [])"
  by (simp add: handleFileUpload_def)

subsection \<open>The detailed table\<close>

lemma add_length_non_line: "\<not> is_line f \<Longrightarrow> add_length ar len m f = m"
  by (simp add: add_length_def is_line_def Let_def)

lemma details_filter:
  "foldl (add_length ar len) m fs = foldl (add_length ar len) m (filter is_line fs)"
  by (induction fs arbitrary: m) (simp_all add: add_length_non_line)

lemma keys_add_length:
  "fst ` set (add_length ar len m f) =
     (if is_line f then insert (geometry_type (geometry f)) (fst ` set m) else fst ` set m)"
  by (simp add: add_length_def is_line_def Let_def dom_update)

lemma keys_details:
  "fst ` set (foldl (add_length ar len) m fs) =
     fst ` set m \<union> (\<lambda>f. geometry_type (geometry f)) ` set (filter is_line fs)"
  by (induction fs arbitrary: m) (auto simp: keys_add_length)

text \<open>
  C3. When a collection \<open>c\<close> is loaded, the object \<open>handleDetailed\<close> stores has no key
  other than \<open>LineString\<close> and \<open>MultiLineString\<close>, and it is the object computed from the
  line features of \<open>c\<close> alone: a feature of another geometry type adds to no entry. The
  handler has no failing branch.
\<close>

theorem details_only_lines:
  assumes "geoJsonData s = Some c"
  shows "\<exists>d. details (handleDetailed ar len s) = Some d
           \<and> fst ` set d \<subseteq> {''LineString'', ''MultiLineString''}
           \<and> d = foldl (add_length ar len) [] (filter is_line (features c))"
proof -
  let ?d = "foldl (add_length ar len) [] (features c)"
  have st: "details (handleDetailed ar len s) = Some ?d"
    using assms by (simp add: handleDetailed_def)
  have ks: "fst ` set ?d \<subseteq> {''LineString'', ''MultiLineString''}"
  proof
    fix k
    assume "k \<in> fst ` set ?d"
    then obtain f where "f \<in> set (features c)" and "is_line f"
      and "k = geometry_type (geometry f)"
      unfolding keys_details by auto
    then show "k \<in> {''LineString'', ''MultiLineString''}"
      by (simp add: is_line_def)
  qed
  have fl: "?d = foldl (add_length ar len) [] (filter is_line (features c))"
    by (rule details_filter)
  from st ks fl show ?thesis by simp
qed

theorem details_only_lines_witness:
  "geoJsonData loaded_state = Some sample_collection
   \<and> details (handleDetailed int_arith (turf_length int_arith grid_distance) loaded_state)
       = Some [(''LineString'', 7)]"
  using details_only_lines [of loaded_state sample_collection int_arith
      "turf_length int_arith grid_distance"]
  by (simp add: loaded_state_def sample_collection_def sample_features_def is_line_def
        add_length_def turf_length_def int_arith_def grid_distance_def length_or_zero_def)

subsection \<open>The two handlers as functions of the collection\<close>

text \<open>
  C4. \<open>handleSummary\<close> and \<open>handleDetailed\<close> give the same state when run a second
  time; each writes its own cell and no other; and what each stores is determined by the
  loaded collection alone, whatever the other cells hold.
\<close>

theorem handlers_pure:
  "handleSummary (handleSummary s) = handleSummary s
   \<and> handleDetailed ar len (handleDetailed ar len s) = handleDetailed ar len s
   \<and> geoJsonData (handleSummary s) = geoJsonData s
   \<and> details (handleSummary s) = details s
   \<and> geoJsonData (handleDetailed ar len s) = geoJsonData s
   \<and> summary (handleDetailed ar len s) = summary s
   \<and> (geoJsonData s = Some c \<and> geoJsonData s' = Some c \<longrightarrow>
        summary (handleSummary s) = summary (handleSummary s')
        \<and> details (handleDetailed ar len s) = details (handleDetailed ar len s'))"
  by (simp add: handleSummary_def handleDetailed_def split: option.splits)

theorem handlers_pure_witness:
  "summary (handleSummary loaded_state)
     = summary (handleSummary (loaded_state\<lparr>summary := None, details := None\<rparr>))
   \<and> details (handleDetailed int_arith (turf_length int_arith grid_distance) loaded_state)
     = details (handleDetailed int_arith (turf_length int_arith grid_distance)
          (loaded_state\<lparr>summary := None, details := None\<rparr>))"
  using handlers_pure [of loaded_state int_arith "turf_length int_arith grid_distance"
      sample_collection "loaded_state\<lparr>summary := None, details := None\<rparr>"]
  by (simp add: loaded_state_def)

text \<open>
  C5. With no collection loaded, \<open>handleSummary\<close> and \<open>handleDetailed\<close> return the state
  unchanged.
\<close>

theorem handlers_without_collection:
  assumes "geoJsonData s = None"
  shows "handleSummary s = s \<and> handleDetailed ar len s = s"
  using assms by (simp add: handleSummary_def handleDetailed_def)

theorem handlers_without_collection_witness:
  "geoJsonData initial_state = None
   \<and> handleSummary initial_state = initial_state
   \<and> handleDetailed int_arith (turf_length int_arith grid_distance) initial_state = initial_state"
proof -
  have h: "geoJsonData initial_state = None"
    by (simp add: initial_state_def)
  from handlers_without_collection [OF h, of int_arith "turf_length int_arith grid_distance"] h
  show ?thesis by simp
qed

subsection \<open>Fitting the map\<close>

lemma lower_min:
  "(if js_less (Finite x) (Finite a) then Finite x else Finite a) = Finite (min x a)"
  by (auto simp: min_def)

lemma upper_max:
  "(if js_less (Finite c) (Finite x) then Finite x else Finite c) = Finite (max x c)"
  by (auto simp: max_def)

lemma bbox_step_finite:
  "bbox_step (Finite a, Finite b, Finite c, Finite d) (x, y) =
     (Finite (min x a), Finite (min y b), Finite (max x c), Finite (max y d))"
  by (simp only: bbox_step.simps lower_min upper_max)

lemma Min_insert_min:
  fixes u v :: "'a::linorder"
  assumes "finite S"
  shows "Min (insert (min u v) S) = Min (insert v (insert u S))"
proof (cases "S = {}")
  case True
  then show ?thesis by (simp add: min.commute)
next
  case False
  with assms show ?thesis
    by (simp add: min.assoc min.left_commute)
qed

lemma Max_insert_max:
  fixes u v :: "'a::linorder"
  assumes "finite S"
  shows "Max (insert (max u v) S) = Max (insert v (insert u S))"
proof (cases "S = {}")
  case True
  then show ?thesis by (simp add: max.commute)
next
  case False
  with assms show ?thesis
    by (simp add: max.assoc max.left_commute)
qed

lemma bbox_from_finite:
  "foldl bbox_step (Finite a, Finite b, Finite c, Finite d) cs =
     (Finite (Min (insert a (fst ` set cs))), Finite (Min (insert b (snd ` set cs))),
      Finite (Max (insert c (fst ` set cs))), Finite (Max (insert d (snd ` set cs))))"
proof (induction cs arbitrary: a b c d)
  case Nil
  show ?case by simp
next
  case (Cons p cs)
  obtain x y where p: "p = (x, y)" by (cases p)
  have "foldl bbox_step (Finite a, Finite b, Finite c, Finite d) (p # cs) =
          foldl bbox_step (Finite (min x a), Finite (min y b), Finite (max x c), Finite (max y d)) cs"
    by (simp only: p foldl_Cons bbox_step_finite)
  also have "\<dots> =
     (Finite (Min (insert (min x a) (fst ` set cs))), Finite (Min (insert (min y b) (snd ` set cs))),
      Finite (Max (insert (max x c) (fst ` set cs))), Finite (Max (insert (max y d) (snd ` set cs))))"
    by (rule Cons.IH)
  also have "\<dots> =
     (Finite (Min (insert a (fst ` set (p # cs)))), Finite (Min (insert b (snd ` set (p # cs)))),
      Finite (Max (insert c (fst ` set (p # cs)))), Finite (Max (insert d (snd ` set (p # cs)))))"
    by (simp add: p Min_insert_min Max_insert_max del: Min_insert Max_insert)
  finally show ?case .
qed

lemma bbox_nonempty:
  assumes "cs \<noteq> []"
  shows "foldl bbox_step (PosInfinity, PosInfinity, NegInfinity, NegInfinity) cs =
     (Finite (Min (fst ` set cs)), Finite (Min (snd ` set cs)),
      Finite (Max (fst ` set cs)), Finite (Max (snd ` set cs)))"
proof -
  from assms obtain x y cs' where cs: "cs = (x, y) # cs'"
    by (cases cs) auto
  have "foldl bbox_step (PosInfinity, PosInfinity, NegInfinity, NegInfinity) cs =
          foldl bbox_step (Finite x, Finite y, Finite x, Finite y) cs'"
    by (simp add: cs)
  then show ?thesis
    by (simp add: cs bbox_from_finite del: Min_insert Max_insert)
qed

lemma sample_coordinates:
  "coordinates sample_collection =
     [(10, 50), (10, 50), (13, 54), (0, 0), (4, 0), (4, 3), (0, 0), (-2, 7), (11, 51)]"
  by (simp add: coordinates_def sample_collection_def sample_features_def)

text \<open>
  C7. For a loaded collection with at least one position, and with the map created, the
  effect calls \<open>fitBounds\<close> with the smallest rectangle that holds every position of
  every feature: the south-west corner is (least latitude, least longitude), the north-east
  corner (greatest latitude, greatest longitude).
\<close>

theorem bounds_are_extent:
  assumes "coordinates c \<noteq> []"
  shows "fitBounds_effect turf_bbox (Some c) (Some m) =
           Some \<lparr>southWest = (Finite (Min (snd ` set (coordinates c))),
                               Finite (Min (fst ` set (coordinates c)))),
                 northEast = (Finite (Max (snd ` set (coordinates c))),
                               Finite (Max (fst ` set (coordinates c)))),
                 padding = (20, 20)\<rparr>"
  using assms by (simp add: fitBounds_effect_def turf_bbox_def bbox_nonempty)

theorem bounds_are_extent_witness:
  "coordinates sample_collection \<noteq> []
   \<and> fitBounds_effect turf_bbox (Some sample_collection) (Some ()) =
       Some \<lparr>southWest = (Finite 0, Finite (- 2)), northEast = (Finite 54, Finite 13),
             padding = (20, 20)\<rparr>"
  using bounds_are_extent [of sample_collection "()"]
  by (simp add: sample_coordinates)

text \<open>
  The claim C8 as written (for a collection without positions the bounds are not
  computed and the map keeps its default view) does not hold: for the empty collection,
  with the map created, the effect computes the box and calls \<open>fitBounds\<close> with it.
\<close>

theorem empty_collection_fits_bounds:
  "coordinates empty_collection = []
   \<and> fitBounds_effect turf_bbox (Some empty_collection) (Some ()) =
       Some \<lparr>southWest = (PosInfinity, PosInfinity), northEast = (NegInfinity, NegInfinity),
             padding = (20, 20)\<rparr>"
  by (simp add: coordinates_def empty_collection_def fitBounds_effect_def turf_bbox_def)

text \<open>
  C8, amended. The effect computes no box and makes no \<open>fitBounds\<close> call while no
  collection is loaded or the map is not yet created. Once a collection is loaded and the
  map is created, also when the collection has no position, the effect calls
  \<open>fitBounds\<close> with the corners \<open>[bbox[1], bbox[0]]\<close> and \<open>[bbox[3], bbox[2]]\<close> of
  the box that \<open>turf.bbox\<close> returns.
\<close>

theorem effect_guard:
  "(data = None \<or> mapRef = None \<longrightarrow> fitBounds_effect bbox data mapRef = None)
   \<and> (bbox c = (b0, b1, b2, b3) \<longrightarrow>
        fitBounds_effect bbox (Some c) (Some m) =
          Some \<lparr>southWest = (b1, b0), northEast = (b3, b2), padding = (20, 20)\<rparr>)"
  by (simp add: fitBounds_effect_def split: option.splits)

theorem effect_guard_witness:
  "fitBounds_effect turf_bbox (None :: int feature_collection option) (Some ()) = None
   \<and> fitBounds_effect turf_bbox (Some empty_collection) (None :: unit option) = None
   \<and> turf_bbox empty_collection = (PosInfinity, PosInfinity, NegInfinity, NegInfinity)
   \<and> fitBounds_effect turf_bbox (Some empty_collection) (Some ()) =
       Some \<lparr>southWest = (PosInfinity, PosInfinity), northEast = (NegInfinity, NegInfinity),
             padding = (20, 20)\<rparr>"
proof -
  have b: "turf_bbox empty_collection = (PosInfinity, PosInfinity, NegInfinity, NegInfinity)"
    by (simp add: turf_bbox_def coordinates_def empty_collection_def)
  from effect_guard [where data = "None :: int feature_collection option" and mapRef = "Some ()"
      and bbox = turf_bbox and c = empty_collection and m = "()"
      and ?b0.0 = PosInfinity and ?b1.0 = PosInfinity and ?b2.0 = NegInfinity
      and ?b3.0 = NegInfinity]
    effect_guard [where data = "Some empty_collection" and mapRef = "None :: unit option"
      and bbox = turf_bbox and c = empty_collection and m = "()"
      and ?b0.0 = PosInfinity and ?b1.0 = PosInfinity and ?b2.0 = NegInfinity
      and ?b3.0 = NegInfinity]
    b
  show ?thesis by simp
qed

subsection \<open>Lines with fewer than two positions\<close>

lemma zip_tl_short: "length ps < 2 \<Longrightarrow> zip ps (tl ps) = []"
  by (cases ps) auto

lemma segments_few:
  assumes "length (coordEach g) < 2"
  shows "segments g = []"
proof (cases g)
  case (LineString ps)
  with assms show ?thesis by (simp add: zip_tl_short)
next
  case (MultiLineString ls)
  have "zip ps (tl ps) = []" if "ps \<in> set ls" for ps
  proof -
    from that have "length ps \<le> length (concat ls)"
      by (induction ls) auto
    with assms MultiLineString show ?thesis
      by (simp add: zip_tl_short)
  qed
  with MultiLineString show ?thesis by simp
qed simp_all

lemma turf_length_few:
  "length (coordEach (geometry f)) < 2 \<Longrightarrow> turf_length ar dist f = num_zero ar"
  by (simp add: turf_length_def segments_few)

lemma length_or_zero_cases:
  "length_or_zero ar v = num_zero ar \<or> num_truthy ar (length_or_zero ar v)"
  by (simp add: length_or_zero_def split: option.splits)

lemma length_or_zero_idem:
  "length_or_zero ar (Some (length_or_zero ar v)) = length_or_zero ar v"
  by (simp add: length_or_zero_def split: option.splits)

lemma length_or_zero_zero:
  "length_or_zero ar (Some (num_zero ar)) = num_zero ar"
  by (simp add: length_or_zero_def)

lemma map_of_add_length:
  "map_of (add_length ar len m f) k =
     (if is_line f \<and> geometry_type (geometry f) = k
      then Some (num_add ar (length_or_zero ar (map_of m k)) (len f))
      else map_of m k)"
  by (simp add: add_length_def is_line_def Let_def update_conv')

lemma add_zero_length:
  assumes z: "num_add ar (num_zero ar) (num_zero ar) = num_zero ar"
    and t: "\<forall>x. num_truthy ar x \<longrightarrow> num_add ar x (num_zero ar) = x"
    and l: "len f = num_zero ar"
  shows "length_or_zero ar (map_of (add_length ar len m f) k) = length_or_zero ar (map_of m k)"
proof (cases "is_line f \<and> geometry_type (geometry f) = k")
  case False
  then show ?thesis by (simp only: map_of_add_length if_False)
next
  case True
  let ?x = "length_or_zero ar (map_of m k)"
  have "num_add ar ?x (num_zero ar) = ?x"
    using length_or_zero_cases [of ar "map_of m k"] z t by auto
  with True l have "map_of (add_length ar len m f) k = Some ?x"
    by (simp add: map_of_add_length)
  then show ?thesis by (simp add: length_or_zero_idem)
qed

lemma add_length_cong:
  assumes "\<forall>k. length_or_zero ar (map_of m k) = length_or_zero ar (map_of m' k)"
  shows "length_or_zero ar (map_of (add_length ar len m f) k) =
           length_or_zero ar (map_of (add_length ar len m' f) k)"
  using assms by (simp add: map_of_add_length)

lemma details_cong:
  assumes "\<forall>k. length_or_zero ar (map_of m k) = length_or_zero ar (map_of m' k)"
  shows "length_or_zero ar (map_of (foldl (add_length ar len) m fs) k) =
           length_or_zero ar (map_of (foldl (add_length ar len) m' fs) k)"
  using assms
proof (induction fs arbitrary: m m')
  case Nil
  then show ?case by simp
next
  case (Cons f fs)
  have "\<forall>k. length_or_zero ar (map_of (add_length ar len m f) k) =
             length_or_zero ar (map_of (add_length ar len m' f) k)"
    using Cons.prems by (simp add: add_length_cong)
  then show ?case
    using Cons.IH by simp
qed

text \<open>
  C9. A \<open>LineString\<close> or \<open>MultiLineString\<close> feature with fewer than two positions has
  length \<open>0\<close>, and it adds \<open>0\<close> to the detailed table: with the feature or without it,
  every geometry type has the same total (a missing key reading as \<open>0\<close>, as
  \<open>|| 0\<close> reads it). The arithmetic is assumed to satisfy \<open>0 + 0 = 0\<close> and
  \<open>x + 0 = x\<close> for every truthy number \<open>x\<close>, as the addition of doubles does.
\<close>

theorem short_line_adds_zero:
  assumes "is_line f" and "length (coordEach (geometry f)) < 2"
    and "num_add ar (num_zero ar) (num_zero ar) = num_zero ar"
    and "\<forall>x. num_truthy ar x \<longrightarrow> num_add ar x (num_zero ar) = x"
    and "geoJsonData s = Some \<lparr>features = xs @ f # ys\<rparr>"
    and "geoJsonData s' = Some \<lparr>features = xs @ ys\<rparr>"
  shows "turf_length ar dist f = num_zero ar
         \<and> (\<exists>d d'. details (handleDetailed ar (turf_length ar dist) s) = Some d
               \<and> details (handleDetailed ar (turf_length ar dist) s') = Some d'
               \<and> (\<forall>k. length_or_zero ar (map_of d k) = length_or_zero ar (map_of d' k)))"
proof -
  let ?len = "turf_length ar dist"
  let ?m = "foldl (add_length ar ?len) [] xs"
  have l: "?len f = num_zero ar"
    using assms(2) by (rule turf_length_few)
  have "\<forall>k. length_or_zero ar (map_of (add_length ar ?len ?m f) k) =
             length_or_zero ar (map_of ?m k)"
    using assms(3,4) l by (simp add: add_zero_length)
  then have "length_or_zero ar (map_of (foldl (add_length ar ?len) (add_length ar ?len ?m f) ys) k) =
             length_or_zero ar (map_of (foldl (add_length ar ?len) ?m ys) k)" for k
    by (rule details_cong)
  then have e: "\<forall>k. length_or_zero ar (map_of (foldl (add_length ar ?len) [] (xs @ f # ys)) k) =
             length_or_zero ar (map_of (foldl (add_length ar ?len) [] (xs @ ys)) k)"
    by simp
  have d: "details (handleDetailed ar ?len s) = Some (foldl (add_length ar ?len) [] (xs @ f # ys))"
    using assms(5) by (simp add: handleDetailed_def)
  have d': "details (handleDetailed ar ?len s') = Some (foldl (add_length ar ?len) [] (xs @ ys))"
    using assms(6) by (simp add: handleDetailed_def)
  from l e d d' show ?thesis by blast
qed

theorem short_line_adds_zero_witness:
  "is_line \<lparr>geometry = LineString [(- 2, 7 :: int)]\<rparr>
   \<and> length (coordEach (geometry \<lparr>geometry = LineString [(- 2, 7 :: int)]\<rparr>)) < 2
   \<and> turf_length int_arith grid_distance \<lparr>geometry = LineString [(- 2, 7)]\<rparr> = 0
   \<and> details (handleDetailed int_arith (turf_length int_arith grid_distance) loaded_state)
       = Some [(''LineString'', 7)]
   \<and> details (handleDetailed int_arith (turf_length int_arith grid_distance)
        (loaded_state\<lparr>geoJsonData := Some \<lparr>features =
           [\<lparr>geometry = Point (10, 50)\<rparr>,
            \<lparr>geometry = LineString [(10, 50), (13, 54)]\<rparr>,
            \<lparr>geometry = Polygon [[(0, 0), (4, 0), (4, 3), (0, 0)]]\<rparr>]
           @ [\<lparr>geometry = Point (11, 51)\<rparr>]\<rparr>\<rparr>))
       = Some [(''LineString'', 7)]"
  using short_line_adds_zero
    [where f = "\<lparr>geometry = LineString [(- 2, 7 :: int)]\<rparr>"
       and ar = int_arith and dist = grid_distance and s = loaded_state
       and xs = "[\<lparr>geometry = Point (10, 50)\<rparr>,
                  \<lparr>geometry = LineString [(10, 50), (13, 54)]\<rparr>,
                  \<lparr>geometry = Polygon [[(0, 0), (4, 0), (4, 3), (0, 0)]]\<rparr>]"
       and ys = "[\<lparr>geometry = Point (11, 51)\<rparr>]"
       and s' = "loaded_state\<lparr>geoJsonData := Some \<lparr>features =
           [\<lparr>geometry = Point (10, 50)\<rparr>,
            \<lparr>geometry = LineString [(10, 50), (13, 54)]\<rparr>,
            \<lparr>geometry = Polygon [[(0, 0), (4, 0), (4, 3), (0, 0)]]\<rparr>]
           @ [\<lparr>geometry = Point (11, 51)\<rparr>]\<rparr>\<rparr>"]
  by (simp add: loaded_state_def sample_collection_def sample_features_def is_line_def
        add_length_def turf_length_def int_arith_def grid_distance_def length_or_zero_def
        handleDetailed_def)

end
